theory Spec2Isabelle
  imports Complex_Main "HOL-Library.Sublist"
begin

section \<open>Python floats\<close>

text \<open>
  The indicator values of the programs are Python floats. A float is modelled as an exact
  real number, one of the two infinities, or NaN. Comparisons and the special cases of the
  arithmetic follow IEEE 754 as Python and numpy apply them to float64 columns (a division
  by zero yields an infinity or NaN, it does not raise). Rounding of finite results,
  overflow and the sign of zero are not modelled: finite arithmetic is exact.
\<close>

datatype pyfloat = Num real | PInf | NInf | NaN

fun flt :: "pyfloat \<Rightarrow> pyfloat \<Rightarrow> bool" where
  "flt (Num a) (Num b) = (a < b)"
| "flt NaN _ = False"
| "flt _ NaN = False"
| "flt PInf _ = False"
| "flt _ NInf = False"
| "flt _ _ = True"

fun fle :: "pyfloat \<Rightarrow> pyfloat \<Rightarrow> bool" where
  "fle (Num a) (Num b) = (a \<le> b)"
| "fle NaN _ = False"
| "fle _ NaN = False"
| "fle NInf _ = True"
| "fle _ PInf = True"
| "fle _ _ = False"

definition fgt :: "pyfloat \<Rightarrow> pyfloat \<Rightarrow> bool" where
  "fgt a b = flt b a"

definition fge :: "pyfloat \<Rightarrow> pyfloat \<Rightarrow> bool" where
  "fge a b = fle b a"

fun fneg :: "pyfloat \<Rightarrow> pyfloat" where
  "fneg (Num a) = Num (- a)"
| "fneg PInf = NInf"
| "fneg NInf = PInf"
| "fneg NaN = NaN"

fun fadd :: "pyfloat \<Rightarrow> pyfloat \<Rightarrow> pyfloat" where
  "fadd (Num a) (Num b) = Num (a + b)"
| "fadd NaN _ = NaN"
| "fadd _ NaN = NaN"
| "fadd PInf NInf = NaN"
| "fadd NInf PInf = NaN"
| "fadd PInf _ = PInf"
| "fadd NInf _ = NInf"
| "fadd _ PInf = PInf"
| "fadd _ NInf = NInf"

definition fsub :: "pyfloat \<Rightarrow> pyfloat \<Rightarrow> pyfloat" where
  "fsub a b = fadd a (fneg b)"

fun fdiv :: "pyfloat \<Rightarrow> pyfloat \<Rightarrow> pyfloat" where
  "fdiv (Num a) (Num b) =
     (if b \<noteq> 0 then Num (a / b)
      else if a = 0 then NaN
      else if 0 < a then PInf else NInf)"
| "fdiv NaN _ = NaN"
| "fdiv _ NaN = NaN"
| "fdiv (Num a) _ = Num 0"
| "fdiv PInf (Num b) = (if 0 \<le> b then PInf else NInf)"
| "fdiv NInf (Num b) = (if 0 \<le> b then NInf else PInf)"
| "fdiv _ _ = NaN"

section \<open>app.py: the entry of one symbol\<close>

text \<open>
  \<open>class StockData\<close>. A timestamp is a number of whole seconds: the fetch result carries
  it as a string printed with \<open>%Y-%m-%d %H:%M:%S\<close> and the update parses that string back
  with the same format, which is the identity at this resolution.
\<close>

record StockData =
  symbol :: string
  price :: pyfloat
  rsi :: pyfloat
  macd :: pyfloat
  macd_signal :: pyfloat
  macd_hist :: pyfloat
  volume :: int
  timestamp :: nat
  prev_macd :: pyfloat
  prev_signal :: pyfloat
  error :: "string option"

text \<open>\<open>StockData.__init__\<close>; \<open>now\<close> is the clock read by \<open>datetime.now()\<close>.\<close>

definition StockData_init :: "string \<Rightarrow> nat \<Rightarrow> StockData" where
  "StockData_init symb now =
     \<lparr>symbol = symb, price = Num 0, rsi = Num 0, macd = Num 0, macd_signal = Num 0,
      macd_hist = Num 0, volume = 0, timestamp = now, prev_macd = Num 0,
      prev_signal = Num 0, error = None\<rparr>"

text \<open>
  \<open>StockData.macd_crossover\<close>. The labels are the strings "Bullish", "Bearish", "Above" and
  "Below" behind an arrow, and "-" (\<open>NoCross\<close>). The property starts with
  \<open>if not hasattr(self, 'prev_macd') or not hasattr(self, 'prev_signal'): return "-"\<close>;
  \<open>__init__\<close> sets both attributes and nothing deletes them, so on every object that exists
  the test is false and the chain below is what runs.
\<close>

datatype crossover = Bullish | Bearish | Above | Below | NoCross

definition macd_crossover :: "StockData \<Rightarrow> crossover" where
  "macd_crossover s =
     (if fle (prev_macd s) (prev_signal s) \<and> fgt (macd s) (macd_signal s) then Bullish
      else if fge (prev_macd s) (prev_signal s) \<and> flt (macd s) (macd_signal s) then Bearish
      else if fgt (macd s) (macd_signal s) then Above
      else if flt (macd s) (macd_signal s) then Below
      else NoCross)"

text \<open>\<open>StockData.update_macd_history\<close>.\<close>

definition update_macd_history :: "StockData \<Rightarrow> StockData" where
  "update_macd_history s = s\<lparr>prev_macd := macd s, prev_signal := macd_signal s\<rparr>"

section \<open>app.py: fetching and merging\<close>

text \<open>
  The dictionary that \<open>fetch_stock_data\<close> returns on success. On failure it returns a
  dictionary with the key \<open>error\<close>; the two shapes are the two sides of a sum, the error
  message on the left.
\<close>

record fetch_data =
  d_symbol :: string
  d_price :: pyfloat
  d_rsi :: pyfloat
  d_macd :: pyfloat
  d_macd_signal :: pyfloat
  d_macd_hist :: pyfloat
  d_volume :: int
  d_timestamp :: nat

type_synonym fetch_result = "string + fetch_data"

text \<open>
  The indicators of \<open>fetch_stock_data\<close> come from the library \<open>ta\<close>, which is not part of
  the repository: the last values of its RSI, MACD and MACD signal series are parameters.
  The answer of \<open>yfinance\<close> is the message of the exception it raised, or the rows
  (close, volume) of the history. The volume column holds integers, so \<open>int\<close> of it does
  not raise, and the functions of \<open>ta\<close> are taken to return a float on every series.
\<close>

record ta_library =
  ta_rsi :: "pyfloat list \<Rightarrow> pyfloat"
  ta_macd :: "pyfloat list \<Rightarrow> pyfloat"
  ta_macd_signal :: "pyfloat list \<Rightarrow> pyfloat"

definition fetch_stock_data ::
  "ta_library \<Rightarrow> string \<Rightarrow> string + (pyfloat \<times> int) list \<Rightarrow> nat \<Rightarrow> fetch_result" where
  "fetch_stock_data ta symb response now =
     (case response of
        Inl exn \<Rightarrow> Inl exn
      | Inr hist \<Rightarrow>
          if hist = [] then Inl ''No data returned''
          else
            let closes = map fst hist;
                rsi_v = ta_rsi ta closes;
                macd_v = ta_macd ta closes;
                signal = ta_macd_signal ta closes;
                hist_value = fsub macd_v signal;
                last_row = last hist
            in Inr \<lparr>d_symbol = symb, d_price = fst last_row, d_rsi = rsi_v, d_macd = macd_v,
                    d_macd_signal = signal, d_macd_hist = hist_value,
                    d_volume = snd last_row, d_timestamp = now\<rparr>)"

text \<open>
  The body of the loop \<open>for symbol in stocks\<close> of \<open>background_update\<close> (and, word for word,
  of \<open>refresh_stocks\<close>) after the fetch: the merge of one result into \<open>stock_data_store\<close>.
  \<open>now\<close> is the clock that \<open>StockData(symbol)\<close> reads when the entry is created. Every key
  read from the result is present, so the inner \<open>except\<close> is not reached from here.
\<close>

type_synonym store = "string \<rightharpoonup> StockData"

definition merge_result :: "nat \<Rightarrow> string \<Rightarrow> fetch_result \<Rightarrow> store \<Rightarrow> store" where
  "merge_result now symb data st =
     (case data of
        Inl err \<Rightarrow>
          (case st symb of
             None \<Rightarrow> st
           | Some e \<Rightarrow> st(symb \<mapsto> e\<lparr>error := Some err\<rparr>))
      | Inr d \<Rightarrow>
          let stock = (case st symb of None \<Rightarrow> StockData_init symb now | Some e \<Rightarrow> e);
              stock = update_macd_history stock
          in st(symb \<mapsto> stock\<lparr>price := d_price d, rsi := d_rsi d, macd := d_macd d,
                               macd_signal := d_macd_signal d, macd_hist := d_macd_hist d,
                               volume := d_volume d, timestamp := d_timestamp d,
                               error := None\<rparr>))"

text \<open>
  A run of merges, in the order in which they reach the store: each step is the clock,
  the symbol and the fetch result.
\<close>

fun merge_all :: "(nat \<times> string \<times> fetch_result) list \<Rightarrow> store \<Rightarrow> store" where
  "merge_all [] st = st"
| "merge_all ((now, symb, data) # rest) st = merge_all rest (merge_result now symb data st)"

text \<open>
  The loops of \<open>background_update\<close> and \<open>refresh_stocks\<close>, one step for each symbol they
  visit, over as many cycles as the list spans: the clock at the fetch, the clock at the
  creation of an entry, the symbol and the answer of \<open>yfinance\<close>.
\<close>

fun refresh_symbols ::
  "ta_library \<Rightarrow> (nat \<times> nat \<times> string \<times> (string + (pyfloat \<times> int) list)) list \<Rightarrow> store \<Rightarrow> store" where
  "refresh_symbols ta [] st = st"
| "refresh_symbols ta ((t_fetch, t_init, symb, response) # rest) st =
     refresh_symbols ta rest
       (merge_result t_init symb (fetch_stock_data ta symb response t_fetch) st)"

text \<open>
  The merge as the specification words it, for comparison with \<open>merge_result\<close>: an entry
  carries the \<open>cycleSeq\<close> of the last merge it accepted, and an attempt whose \<open>cycleSeq\<close>
  is not strictly greater is rejected. \<open>StockData\<close> has no such field and the loops above
  pass no such number.
\<close>

definition spec_merge :: "nat \<Rightarrow> fetch_result \<Rightarrow> nat \<times> StockData \<Rightarrow> nat \<times> StockData" where
  "spec_merge cycleSeq data entry =
     (if cycleSeq \<le> fst entry then entry
      else
        (cycleSeq,
         case data of
           Inl err \<Rightarrow> (snd entry)\<lparr>error := Some err\<rparr>
         | Inr d \<Rightarrow>
             (update_macd_history (snd entry))
               \<lparr>price := d_price d, rsi := d_rsi d, macd := d_macd d,
                macd_signal := d_macd_signal d, macd_hist := d_macd_hist d,
                volume := d_volume d, timestamp := d_timestamp d, error := None\<rparr>))"

section \<open>app.py: symbols\<close>

definition DEFAULT_STOCKS :: "string list" where
  "DEFAULT_STOCKS = [''RELIANCE.NS'', ''TCS.NS'', ''HDFCBANK.NS'', ''INFY.NS'', ''HINDUNILVR.NS'']"

definition ensure_nse_symbol :: "string \<Rightarrow> string" where
  "ensure_nse_symbol symbol0 = (if \<not> suffix ''.NS'' symbol0 then symbol0 @ ''.NS'' else symbol0)"

text \<open>
  \<open>fetch_stocks_from_db\<close>. The database answers with the rows of the query, or not at all
  (no connection, or an exception on the way): \<open>None\<close>.
\<close>

definition fetch_stocks_from_db :: "string list option \<Rightarrow> string list" where
  "fetch_stocks_from_db db =
     (case db of
        None \<Rightarrow> map ensure_nse_symbol DEFAULT_STOCKS
      | Some rows \<Rightarrow>
          let stocks = map ensure_nse_symbol rows
          in if stocks \<noteq> [] then stocks else map ensure_nse_symbol DEFAULT_STOCKS)"

text \<open>
  \<open>get_stock\<close>: the entry whose \<open>to_dict\<close> is sent back, or the message and the status 404.
\<close>

definition get_stock :: "store \<Rightarrow> string \<Rightarrow> (string \<times> nat) + StockData" where
  "get_stock st symbol0 =
     (let symb = ensure_nse_symbol symbol0
      in case st symb of
           Some e \<Rightarrow> Inr e
         | None \<Rightarrow> Inl (''Stock '' @ symb @ '' not found'', 404))"

section \<open>stock_analyzer.py: the indicators of StockFetcher.run\<close>

text \<open>
  The pandas operations that \<open>run\<close> applies to the column of closes, as pandas documents
  them. The closes are finite numbers. \<open>Series.diff()\<close> has NaN in its first row.
\<close>

fun diff :: "real list \<Rightarrow> pyfloat list" where
  "diff [] = []"
| "diff (x # xs) = NaN # map2 (\<lambda>a b. Num (b - a)) (x # xs) xs"

text \<open>
  \<open>rolling(window=w).mean()\<close>: NaN until the window is full (\<open>min_periods\<close> is the window),
  then the mean of the last \<open>w\<close> rows, which is NaN when one of them is.
\<close>

definition rolling_mean :: "nat \<Rightarrow> pyfloat list \<Rightarrow> pyfloat list" where
  "rolling_mean w xs =
     map (\<lambda>i. if i + 1 < w then NaN
               else fdiv (foldl fadd (Num 0) (take w (drop (i + 1 - w) xs))) (Num (real w)))
         [0..<length xs]"

text \<open>
  \<open>ewm(span=n, adjust=False).mean()\<close> as the loop of pandas computes it: the first row
  is the first value; then the running value \<open>weighted\<close> is replaced, when it differs from
  the current value, by the weighted sum divided by the sum of the two weights.
\<close>

fun ewm_loop :: "real \<Rightarrow> real \<Rightarrow> real list \<Rightarrow> real list" where
  "ewm_loop alpha weighted [] = []"
| "ewm_loop alpha weighted (cur # vals) =
     (let old_wt = 1 - alpha;
          new_wt = alpha;
          weighted' = (if weighted \<noteq> cur
                       then (old_wt * weighted + new_wt * cur) / (old_wt + new_wt)
                       else weighted)
      in weighted' # ewm_loop alpha weighted' vals)"

definition ewm_mean :: "nat \<Rightarrow> real list \<Rightarrow> real list" where
  "ewm_mean n xs =
     (case xs of
        [] \<Rightarrow> []
      | x # rest \<Rightarrow> x # ewm_loop (2 / (real n + 1)) x rest)"

text \<open>
  \<open>StockFetcher.run\<close> of a worker that is not stopped: \<open>Inl\<close> is the message of
  \<open>error_occurred\<close>, \<open>Inr\<close> the dictionary of \<open>data_ready\<close>. The rows are (close, volume).
\<close>

definition run :: "string \<Rightarrow> string + (real \<times> int) list \<Rightarrow> nat \<Rightarrow> fetch_result" where
  "run symb response now =
     (case response of
        Inl exn \<Rightarrow> Inl exn
      | Inr hist \<Rightarrow>
          if hist = [] then Inl ''No data returned''
          else
            let close = map fst hist;
                delta = diff close;
                gain = rolling_mean 14 (map (\<lambda>d. if fgt d (Num 0) then d else Num 0) delta);
                loss = rolling_mean 14
                         (map (\<lambda>d. fneg (if flt d (Num 0) then d else Num 0)) delta);
                rs = map2 fdiv gain loss;
                rsi_v = fsub (Num 100) (last (map (\<lambda>r. fdiv (Num 100) (fadd (Num 1) r)) rs));
                exp1 = ewm_mean 12 close;
                exp2 = ewm_mean 26 close;
                macd_s = map2 (-) exp1 exp2;
                signal = ewm_mean 9 macd_s;
                macd_hist_s = map2 (-) macd_s signal;
                last_row = last hist
            in Inr \<lparr>d_symbol = symb, d_price = Num (fst last_row), d_rsi = rsi_v,
                    d_macd = Num (last macd_s), d_macd_signal = Num (last signal),
                    d_macd_hist = Num (last macd_hist_s), d_volume = snd last_row,
                    d_timestamp = now\<rparr>)"

text \<open>
  The exponential moving average as the specification defines it, by its recurrence on
  the index, for comparison with \<open>ewm_mean\<close>.
\<close>

fun ema_ref :: "real \<Rightarrow> (nat \<Rightarrow> real) \<Rightarrow> nat \<Rightarrow> real" where
  "ema_ref alpha x 0 = x 0"
| "ema_ref alpha x (Suc i) = x (Suc i) * alpha + ema_ref alpha x i * (1 - alpha)"

text \<open>
  The MACD line and its signal line as the specification defines them: spans 12 and 26
  for the two averages of the closes, span 9 for the average of their difference, each
  with the smoothing factor 2 / (span + 1).
\<close>

definition macd_ref :: "real list \<Rightarrow> nat \<Rightarrow> real" where
  "macd_ref close i =
     ema_ref (2 / (12 + 1)) (\<lambda>j. close ! j) i - ema_ref (2 / (26 + 1)) (\<lambda>j. close ! j) i"

definition signal_ref :: "real list \<Rightarrow> nat \<Rightarrow> real" where
  "signal_ref close i = ema_ref (2 / (9 + 1)) (macd_ref close) i"

section \<open>simple_stock_analyzer.py: the worker StockDataFetcher\<close>

text \<open>
  This worker rounds what it reports with Python's \<open>round\<close>, and whether its histogram is
  the difference of the two values beside it depends on the rounding of float64. For this
  worker the rounding is therefore written out. \<open>to_double\<close> is the float64 nearest to a
  real number, ties to the even mantissa: the number is scaled into the binade of the
  53-bit mantissas, rounded to an integer and scaled back. Overflow and subnormal numbers
  are not modelled.
\<close>

definition round_half_even :: "real \<Rightarrow> int" where
  "round_half_even x =
     (let f = \<lfloor>x\<rfloor>; r = x - of_int f
      in if r < 1 / 2 then f
         else if 1 / 2 < r then f + 1
         else if even f then f else f + 1)"

fun to_binade :: "nat \<Rightarrow> real \<Rightarrow> real \<Rightarrow> real \<times> real" where
  "to_binade fuel x u =
     (if fuel = 0 then (x, u)
      else if 2 ^ 53 \<le> x then to_binade (fuel - 1) (x / 2) (u * 2)
      else if x < 2 ^ 52 then to_binade (fuel - 1) (x * 2) (u / 2)
      else (x, u))"

declare to_binade.simps [simp del]

definition to_double :: "real \<Rightarrow> real" where
  "to_double x =
     (if x = 0 then 0
      else let (m, u) = to_binade 2200 \<bar>x\<bar> 1
           in sgn x * of_int (round_half_even m) * u)"

text \<open>
  \<open>round(x, ndigits)\<close> on a float: the decimal of \<open>ndigits\<close> digits nearest to the exact
  value of \<open>x\<close>, ties to even, as a float64; NaN and the infinities are returned as they
  are.
\<close>

fun py_round :: "pyfloat \<Rightarrow> nat \<Rightarrow> pyfloat" where
  "py_round (Num x) ndigits =
     Num (to_double (of_int (round_half_even (x * 10 ^ ndigits)) / 10 ^ ndigits))"
| "py_round y ndigits = y"

text \<open>The subtraction of two floats, rounded to float64.\<close>

definition fsub64 :: "pyfloat \<Rightarrow> pyfloat \<Rightarrow> pyfloat" where
  "fsub64 a b = (case fsub a b of Num x \<Rightarrow> Num (to_double x) | y \<Rightarrow> y)"

text \<open>
  \<open>StockDataFetcher.run\<close>: \<open>Inl\<close> is the message of \<open>error_occurred\<close>, \<open>Inr\<close> the dictionary
  of \<open>data_ready\<close>. The indicators come from the library \<open>ta\<close>, as in \<open>fetch_stock_data\<close>.
\<close>

definition StockDataFetcher_run ::
  "ta_library \<Rightarrow> string \<Rightarrow> string + (pyfloat \<times> int) list \<Rightarrow> nat \<Rightarrow> fetch_result" where
  "StockDataFetcher_run ta symb response now =
     (case response of
        Inl exn \<Rightarrow> Inl (''Error processing '' @ symb @ '': '' @ exn)
      | Inr df \<Rightarrow>
          if df = [] then Inl (''Error processing '' @ symb @ '': No data found for '' @ symb)
          else
            let close_prices = map fst df;
                current_rsi = py_round (ta_rsi ta close_prices) 2;
                current_macd = py_round (ta_macd ta close_prices) 4;
                current_signal = py_round (ta_macd_signal ta close_prices) 4;
                current_hist = py_round (fsub64 current_macd current_signal) 4
            in Inr \<lparr>d_symbol = symb, d_price = py_round (fst (last df)) 2,
                    d_rsi = current_rsi, d_macd = current_macd,
                    d_macd_signal = current_signal, d_macd_hist = current_hist,
                    d_volume = snd (last df), d_timestamp = now\<rparr>)"

section \<open>Sample data\<close>

text \<open>An entry, two fetch results and a short history, for the concrete instances below.\<close>

definition sample_entry :: StockData where
  "sample_entry =
     \<lparr>symbol = ''TCS.NS'', price = Num 200, rsi = Num 55, macd = Num 2, macd_signal = Num 1,
      macd_hist = Num 1, volume = 10, timestamp = 200, prev_macd = Num 0,
      prev_signal = Num 0, error = None\<rparr>"

definition sample_data :: fetch_data where
  "sample_data =
     \<lparr>d_symbol = ''TCS.NS'', d_price = Num 100, d_rsi = Num 40, d_macd = Num 1,
      d_macd_signal = Num 3, d_macd_hist = Num (- 2), d_volume = 7, d_timestamp = 100\<rparr>"

definition sample_data2 :: fetch_data where
  "sample_data2 =
     \<lparr>d_symbol = ''TCS.NS'', d_price = Num 210, d_rsi = Num 60, d_macd = Num 4,
      d_macd_signal = Num 3, d_macd_hist = Num 1, d_volume = 9, d_timestamp = 300\<rparr>"

text \<open>Three steps of the refresh loop: a fetch, a failed fetch and a fetch.\<close>

definition sample_steps :: "(nat \<times> nat \<times> string \<times> (string + (pyfloat \<times> int) list)) list" where
  "sample_steps =
     [(60, 61, ''TCS.NS'', Inr [(Num 10, 100), (Num 12, 120)]),
      (90, 91, ''TCS.NS'', Inl ''timed out''),
      (120, 121, ''TCS.NS'', Inr [(Num 10, 100), (Num 12, 120), (Num 15, 90)])]"

text \<open>
  Two stand-ins for the library \<open>ta\<close>: one whose MACD and signal are the floats 0.3 and
  0.1, one whose MACD and signal are 0.5 and 0.25.
\<close>

definition sample_ta_tenths :: ta_library where
  "sample_ta_tenths =
     \<lparr>ta_rsi = (\<lambda>c. Num 50),
      ta_macd = (\<lambda>c. Num (5404319552844595 / 2 ^ 54)),
      ta_macd_signal = (\<lambda>c. Num (3602879701896397 / 2 ^ 55))\<rparr>"

definition sample_ta_quarters :: ta_library where
  "sample_ta_quarters =
     \<lparr>ta_rsi = (\<lambda>c. Num 50), ta_macd = (\<lambda>c. Num (1 / 2)),
      ta_macd_signal = (\<lambda>c. Num (1 / 4))\<rparr>"

section \<open>Auxiliary facts\<close>

lemma flt_asym: "flt a b \<Longrightarrow> \<not> flt b a"
  by (cases a; cases b) auto

lemma merge_all_append:
  "merge_all (xs @ ys) st = merge_all ys (merge_all xs st)"
  by (induction xs arbitrary: st) auto

lemma merge_result_success_fields:
  "\<exists>e. merge_result now symb (Inr d) st symb = Some e
       \<and> price e = d_price d \<and> rsi e = d_rsi d \<and> macd e = d_macd d
       \<and> macd_signal e = d_macd_signal d \<and> macd_hist e = d_macd_hist d
       \<and> volume e = d_volume d \<and> timestamp e = d_timestamp d \<and> error e = None"
  by (simp add: merge_result_def Let_def)

lemma merge_result_existing:
  "st symb = Some e \<Longrightarrow>
   merge_result now symb (Inr d) st symb =
     Some (e\<lparr>prev_macd := macd e, prev_signal := macd_signal e,
             price := d_price d, rsi := d_rsi d, macd := d_macd d,
             macd_signal := d_macd_signal d, macd_hist := d_macd_hist d,
             volume := d_volume d, timestamp := d_timestamp d, error := None\<rparr>)"
  by (simp add: merge_result_def update_macd_history_def)

lemma merge_result_other:
  "s \<noteq> symb \<Longrightarrow> merge_result now s data st symb = st symb"
  by (auto simp: merge_result_def Let_def split: sum.splits option.splits)

lemma merge_result_failure:
  "st symb = Some e \<Longrightarrow> merge_result now symb (Inl err) st symb = Some (e\<lparr>error := Some err\<rparr>)"
  by (simp add: merge_result_def)

lemma merge_all_keeps_macd:
  "st symb = Some e \<Longrightarrow>
   \<forall>s\<in>set steps. fst (snd s) \<noteq> symb \<or> isl (snd (snd s)) \<Longrightarrow>
   \<exists>e'. merge_all steps st symb = Some e'
        \<and> macd e' = macd e \<and> macd_signal e' = macd_signal e"
proof (induction steps arbitrary: st e)
  case Nil
  then show ?case by simp
next
  case (Cons step steps)
  obtain now s data where step: "step = (now, s, data)"
    by (cases step) auto
  from Cons.prems(2) step have ok: "s \<noteq> symb \<or> isl data" by simp
  have "\<exists>e1. merge_result now s data st symb = Some e1
             \<and> macd e1 = macd e \<and> macd_signal e1 = macd_signal e"
  proof (cases "s = symb")
    case False
    then show ?thesis using Cons.prems(1) by (simp add: merge_result_other)
  next
    case True
    with ok obtain err where "data = Inl err" by (cases data) auto
    with True Cons.prems(1) show ?thesis by (simp add: merge_result_failure)
  qed
  then obtain e1 where e1: "merge_result now s data st symb = Some e1"
    "macd e1 = macd e" "macd_signal e1 = macd_signal e" by blast
  from Cons.prems(2) have rest: "\<forall>s\<in>set steps. fst (snd s) \<noteq> symb \<or> isl (snd (snd s))"
    by simp
  from Cons.IH[of "merge_result now s data st" e1, OF e1(1) rest] e1(2,3) step show ?case by simp
qed

section \<open>The merge into the store\<close>

text \<open>
  C1. The claim: a merge attempt whose \<open>cycleSeq\<close> is not strictly greater than the stored
  one leaves every field of the entry unchanged. The store of the program keeps no
  \<open>cycleSeq\<close> and rejects nothing. At the entry \<open>sample_entry\<close>, stored by cycle 2, the
  attempt of cycle 1 with the result \<open>sample_data\<close> is a no-op for the merge of the
  specification, and the merge of the program replaces the entry.
\<close>

theorem stale_merge_counterexample:
  "spec_merge 1 (Inr sample_data) (2, sample_entry) = (2, sample_entry)
   \<and> merge_result 0 ''TCS.NS'' (Inr sample_data) [''TCS.NS'' \<mapsto> sample_entry] ''TCS.NS''
       \<noteq> Some sample_entry
   \<and> map_option price
       (merge_result 0 ''TCS.NS'' (Inr sample_data) [''TCS.NS'' \<mapsto> sample_entry] ''TCS.NS'')
       = Some (Num 100)"
  by (simp add: spec_merge_def merge_result_def sample_entry_def sample_data_def
      update_macd_history_def)

text \<open>
  C1, as amended. No merge attempt is rejected: whatever was merged earlier and in
  whatever order, after the merge of a successful result the entry of the symbol holds
  the price, RSI, MACD, signal, histogram, volume and timestamp of that result and no
  error.
\<close>

theorem merge_never_rejected:
  "\<exists>e. merge_all (earlier @ [(now, symb, Inr d)]) st symb = Some e
       \<and> price e = d_price d \<and> rsi e = d_rsi d \<and> macd e = d_macd d
       \<and> macd_signal e = d_macd_signal d \<and> macd_hist e = d_macd_hist d
       \<and> volume e = d_volume d \<and> timestamp e = d_timestamp d \<and> error e = None"
  using merge_result_success_fields[of now symb d "merge_all earlier st"]
  by (simp add: merge_all_append)

text \<open>
  C2. On an existing entry the merge of a successful result puts the entry's MACD and
  signal into \<open>prev_macd\<close> and \<open>prev_signal\<close>, overwrites the price, RSI, MACD, signal,
  histogram, volume and timestamp with the new values and clears the error. Failed
  fetches of the symbol, and merges of other symbols, leave MACD and signal alone: with
  any number of them in between, the previous values after a successful merge are the
  MACD and signal of the last successful one.
\<close>

theorem merge_success_shifts_history:
  assumes "st symb = Some e"
    and "\<forall>s\<in>set between. fst (snd s) \<noteq> symb \<or> isl (snd (snd s))"
  shows "merge_result now symb (Inr d) st symb =
           Some (e\<lparr>prev_macd := macd e, prev_signal := macd_signal e,
                   price := d_price d, rsi := d_rsi d, macd := d_macd d,
                   macd_signal := d_macd_signal d, macd_hist := d_macd_hist d,
                   volume := d_volume d, timestamp := d_timestamp d, error := None\<rparr>)
       \<and> (\<exists>e'. merge_all (between @ [(now, symb, Inr d)]) st symb = Some e'
              \<and> prev_macd e' = macd e \<and> prev_signal e' = macd_signal e
              \<and> macd e' = d_macd d \<and> macd_signal e' = d_macd_signal d \<and> error e' = None)
       \<and> (\<exists>e'. merge_all ((t_prev, symb, Inr d_prev) # between @ [(now, symb, Inr d)]) st_prev symb = Some e'
              \<and> prev_macd e' = d_macd d_prev \<and> prev_signal e' = d_macd_signal d_prev)"
proof (intro conjI)
  show "merge_result now symb (Inr d) st symb =
           Some (e\<lparr>prev_macd := macd e, prev_signal := macd_signal e,
                   price := d_price d, rsi := d_rsi d, macd := d_macd d,
                   macd_signal := d_macd_signal d, macd_hist := d_macd_hist d,
                   volume := d_volume d, timestamp := d_timestamp d, error := None\<rparr>)"
    using assms(1) by (rule merge_result_existing)
next
  from merge_all_keeps_macd[of st symb e between, OF assms] obtain e1 where
    e1: "merge_all between st symb = Some e1" "macd e1 = macd e" "macd_signal e1 = macd_signal e"
    by blast
  show "\<exists>e'. merge_all (between @ [(now, symb, Inr d)]) st symb = Some e'
              \<and> prev_macd e' = macd e \<and> prev_signal e' = macd_signal e
              \<and> macd e' = d_macd d \<and> macd_signal e' = d_macd_signal d \<and> error e' = None"
    using e1 by (simp add: merge_all_append merge_result_existing)
next
  obtain e0 where e0: "merge_result t_prev symb (Inr d_prev) st_prev symb = Some e0"
    "macd e0 = d_macd d_prev" "macd_signal e0 = d_macd_signal d_prev"
    using merge_result_success_fields[of t_prev symb d_prev st_prev] by blast
  from merge_all_keeps_macd[of "merge_result t_prev symb (Inr d_prev) st_prev" symb e0 between, OF e0(1) assms(2)] obtain e1 where
    e1: "merge_all between (merge_result t_prev symb (Inr d_prev) st_prev) symb = Some e1"
      "macd e1 = macd e0" "macd_signal e1 = macd_signal e0"
    by blast
  show "\<exists>e'. merge_all ((t_prev, symb, Inr d_prev) # between @ [(now, symb, Inr d)]) st_prev symb = Some e'
              \<and> prev_macd e' = d_macd d_prev \<and> prev_signal e' = d_macd_signal d_prev"
    using e1 e0 by (simp add: merge_all_append merge_result_existing)
qed

theorem merge_success_shifts_history_witness:
  "merge_result 7 ''TCS.NS'' (Inr sample_data2) [''TCS.NS'' \<mapsto> sample_entry] ''TCS.NS'' =
     Some (sample_entry\<lparr>prev_macd := Num 2, prev_signal := Num 1, price := Num 210,
                        rsi := Num 60, macd := Num 4, macd_signal := Num 3,
                        macd_hist := Num 1, volume := 9, timestamp := 300, error := None\<rparr>)
   \<and> map_option prev_macd
       (merge_all ((3, ''TCS.NS'', Inr sample_data)
                   # [(4, ''TCS.NS'', Inl ''No data returned''), (5, ''INFY.NS'', Inr sample_data2)]
                   @ [(7, ''TCS.NS'', Inr sample_data2)]) Map.empty ''TCS.NS'') = Some (Num 1)"
proof -
  have h1: "[''TCS.NS'' \<mapsto> sample_entry] ''TCS.NS'' = Some sample_entry"
    by simp
  have h2: "\<forall>s\<in>set [(4::nat, ''TCS.NS'', Inl ''No data returned'' :: fetch_result),
                      (5, ''INFY.NS'', Inr sample_data2)].
              fst (snd s) \<noteq> ''TCS.NS'' \<or> isl (snd (snd s))"
    by simp
  show ?thesis
    using merge_success_shifts_history
      [where st = "[''TCS.NS'' \<mapsto> sample_entry]" and symb = "''TCS.NS''"
         and e = sample_entry and now = 7 and d = sample_data2 and t_prev = 3
         and d_prev = sample_data and st_prev = Map.empty, OF h1 h2]
    by (auto simp: sample_entry_def sample_data_def sample_data2_def)
qed

text \<open>
  C3. On an existing entry the merge of a failed fetch sets the error and nothing else:
  price, RSI, MACD, signal, histogram, previous MACD and signal, volume and timestamp
  are what they were, and so is every other entry of the store.
\<close>

theorem merge_failure_sets_only_error:
  assumes "st symb = Some e"
  shows "merge_result now symb (Inl err) st = st(symb \<mapsto> e\<lparr>error := Some err\<rparr>)
       \<and> (\<exists>e'. merge_result now symb (Inl err) st symb = Some e'
              \<and> error e' = Some err
              \<and> price e' = price e \<and> rsi e' = rsi e \<and> macd e' = macd e
              \<and> macd_signal e' = macd_signal e \<and> macd_hist e' = macd_hist e
              \<and> prev_macd e' = prev_macd e \<and> prev_signal e' = prev_signal e
              \<and> volume e' = volume e \<and> timestamp e' = timestamp e \<and> symbol e' = symbol e)"
  using assms by (simp add: merge_result_def)

theorem merge_failure_sets_only_error_witness:
  "merge_result 7 ''TCS.NS'' (Inl ''No data returned'') [''TCS.NS'' \<mapsto> sample_entry] =
     [''TCS.NS'' \<mapsto> sample_entry\<lparr>error := Some ''No data returned''\<rparr>]"
proof -
  have h: "[''TCS.NS'' \<mapsto> sample_entry] ''TCS.NS'' = Some sample_entry"
    by simp
  show ?thesis
    using merge_failure_sets_only_error
      [where st = "[''TCS.NS'' \<mapsto> sample_entry]" and symb = "''TCS.NS''"
         and e = sample_entry and now = 7 and err = "''No data returned''", OF h]
    by simp
qed

section \<open>The crossover label\<close>

text \<open>
  C4. The label is Bullish exactly when prev_macd <= prev_signal and macd > signal;
  Bearish exactly when prev_macd >= prev_signal and macd < signal (the Bullish condition
  then fails by itself); Above exactly when macd > signal and the Bullish condition
  fails; Below exactly when macd < signal and the Bearish condition fails. The
  comparisons are those of Python floats. The previous values (1.0, 1.2) with the
  current values (1.3, 1.1) give Bullish, and (2.0, 1.0) with (0.9, 1.0) give Bearish.
\<close>

theorem macd_crossover_cases:
  "(macd_crossover e = Bullish \<longleftrightarrow>
      fle (prev_macd e) (prev_signal e) \<and> fgt (macd e) (macd_signal e))
   \<and> (macd_crossover e = Bearish \<longleftrightarrow>
      fge (prev_macd e) (prev_signal e) \<and> flt (macd e) (macd_signal e))
   \<and> (macd_crossover e = Above \<longleftrightarrow>
      fgt (macd e) (macd_signal e) \<and> \<not> fle (prev_macd e) (prev_signal e))
   \<and> (macd_crossover e = Below \<longleftrightarrow>
      flt (macd e) (macd_signal e) \<and> \<not> fge (prev_macd e) (prev_signal e))
   \<and> macd_crossover (e\<lparr>prev_macd := Num 1, prev_signal := Num (12 / 10),
                        macd := Num (13 / 10), macd_signal := Num (11 / 10)\<rparr>) = Bullish
   \<and> macd_crossover (e\<lparr>prev_macd := Num 2, prev_signal := Num 1,
                        macd := Num (9 / 10), macd_signal := Num 1\<rparr>) = Bearish"
  using flt_asym[of "macd e" "macd_signal e"]
  by (auto simp add: macd_crossover_def fgt_def fge_def)

text \<open>
  C5, at the first cycle of a symbol. The store is empty and the first successful fetch
  of TCS.NS has MACD 1.3 and signal 1.1. The entry is created with previous values 0.0
  and 0.0, and the label is Bullish where the claim says "-".
\<close>

theorem first_cycle_crossover:
  "map_option macd_crossover
     (merge_result 0 ''TCS.NS''
        (Inr \<lparr>d_symbol = ''TCS.NS'', d_price = Num 100, d_rsi = Num 50,
              d_macd = Num (13 / 10), d_macd_signal = Num (11 / 10),
              d_macd_hist = Num (2 / 10), d_volume = 1000, d_timestamp = 60\<rparr>)
        Map.empty ''TCS.NS'') = Some Bullish"
  by (simp add: merge_result_def StockData_init_def update_macd_history_def
      macd_crossover_def fgt_def)

section \<open>The indicators\<close>



text \<open>The loop of \<open>ewm_mean\<close> computes the recurrence of \<open>ema_ref\<close>, row by row.\<close>

lemma ewm_step:
  "(if w \<noteq> cur then ((1 - a) * w + a * cur) / ((1 - a) + a) else w) = cur * a + w * (1 - a)"
  for a :: real
  by (simp add: algebra_simps)

lemma length_ewm_loop: "length (ewm_loop a w vals) = length vals"
  by (induction vals arbitrary: w) (simp_all add: Let_def)

lemma length_ewm_mean: "length (ewm_mean n xs) = length xs"
  by (cases xs) (simp_all add: ewm_mean_def length_ewm_loop)

lemma ema_ref_shift:
  "ema_ref a (\<lambda>j. ((cur * a + w * (1 - a)) # vs) ! j) i
     = ema_ref a (\<lambda>j. (w # cur # vs) ! j) (Suc i)"
  by (induction i) simp_all

lemma ewm_loop_nth:
  "i < length vals \<Longrightarrow> ewm_loop a w vals ! i = ema_ref a (\<lambda>j. (w # vals) ! j) (Suc i)"
proof (induction vals arbitrary: w i)
  case Nil
  then show ?case by simp
next
  case (Cons cur vs)
  show ?case
  proof (cases i)
    case 0
    then show ?thesis by (simp add: Let_def ewm_step del: ewm_loop.simps)
        (simp add: Let_def ewm_step)
  next
    case (Suc k)
    with Cons.prems have "k < length vs" by simp
    from Cons.IH[OF this, of "cur * a + w * (1 - a)"] Suc show ?thesis
      using ema_ref_shift[of a cur w vs "Suc k"]
      by (simp add: Let_def ewm_step)
  qed
qed

lemma ewm_mean_nth:
  "i < length xs \<Longrightarrow> ewm_mean n xs ! i = ema_ref (2 / (real n + 1)) (\<lambda>j. xs ! j) i"
proof (cases xs)
  case Nil
  assume "i < length xs"
  with Nil show ?thesis by simp
next
  case (Cons x rest)
  assume i: "i < length xs"
  show ?thesis
  proof (cases i)
    case 0
    with Cons show ?thesis by (simp add: ewm_mean_def)
  next
    case (Suc k)
    with i Cons have "k < length rest" by simp
    from ewm_loop_nth[OF this] Suc Cons show ?thesis by (simp add: ewm_mean_def)
  qed
qed

lemma ema_ref_cong:
  "(\<And>j. j \<le> i \<Longrightarrow> f j = g j) \<Longrightarrow> ema_ref a f i = ema_ref a g i"
  by (induction i) simp_all

lemma last_map2:
  "length xs = length ys \<Longrightarrow> xs \<noteq> [] \<Longrightarrow> last (map2 f xs ys) = f (last xs) (last ys)"
  by (cases xs rule: rev_cases; cases ys rule: rev_cases) auto

lemma macd_series_nth:
  "i < length close \<Longrightarrow>
   map2 (-) (ewm_mean 12 close) (ewm_mean 26 close) ! i = macd_ref close i"
  by (simp add: length_ewm_mean ewm_mean_nth macd_ref_def)

lemma signal_series_nth:
  assumes "i < length close"
  shows "ewm_mean 9 (map2 (-) (ewm_mean 12 close) (ewm_mean 26 close)) ! i = signal_ref close i"
proof -
  let ?m = "map2 (-) (ewm_mean 12 close) (ewm_mean 26 close)"
  have len: "length ?m = length close" by (simp add: length_ewm_mean)
  have "ewm_mean 9 ?m ! i = ema_ref (2 / (real 9 + 1)) (\<lambda>j. ?m ! j) i"
    using assms len by (simp add: ewm_mean_nth)
  also have "\<dots> = ema_ref (2 / (real 9 + 1)) (macd_ref close) i"
    using assms by (intro ema_ref_cong macd_series_nth) simp
  finally show ?thesis by (simp add: signal_ref_def)
qed

text \<open>
  C7. For a series with at least one row, the MACD that \<open>run\<close> reports is the difference
  of the reference averages of spans 12 and 26 at the last row, each following
  EMA[i] = close[i] * alpha + EMA[i-1] * (1 - alpha) with alpha = 2 / (span + 1) from
  EMA[0] = close[0]; the signal is the reference average of span 9 of the MACD series at
  the last row; the histogram is their difference.
\<close>

theorem run_macd_reference:
  assumes "hist \<noteq> []"
  shows "\<exists>d. run symb (Inr hist) now = Inr d
           \<and> d_macd d = Num (macd_ref (map fst hist) (length hist - 1))
           \<and> d_macd_signal d = Num (signal_ref (map fst hist) (length hist - 1))
           \<and> d_macd_hist d = Num (macd_ref (map fst hist) (length hist - 1)
                                    - signal_ref (map fst hist) (length hist - 1))"
proof -
  let ?c = "map fst hist"
  let ?m = "map2 (-) (ewm_mean 12 ?c) (ewm_mean 26 ?c)"
  let ?s = "ewm_mean 9 ?m"
  let ?n = "length hist - 1"
  from assms have n: "?n < length ?c" by (cases hist) simp_all
  have lm: "length ?m = length hist" by (simp add: length_ewm_mean)
  have ls: "length ?s = length hist" by (simp add: length_ewm_mean)
  from assms lm have "?m \<noteq> []" by (metis length_0_conv)
  then have "last ?m = ?m ! (length ?m - 1)" by (rule last_conv_nth)
  also have "\<dots> = ?m ! ?n" by (simp only: lm)
  also have "\<dots> = macd_ref ?c ?n" by (rule macd_series_nth[OF n])
  finally have m: "last ?m = macd_ref ?c ?n" .
  from assms ls have "?s \<noteq> []" by (metis length_0_conv)
  then have "last ?s = ?s ! (length ?s - 1)" by (rule last_conv_nth)
  also have "\<dots> = ?s ! ?n" by (simp only: ls)
  also have "\<dots> = signal_ref ?c ?n" by (rule signal_series_nth[OF n])
  finally have s: "last ?s = signal_ref ?c ?n" .
  have h: "last (map2 (-) ?m ?s) = last ?m - last ?s"
    using assms lm ls by (intro last_map2) auto
  show ?thesis
    using assms m s h by (simp add: run_def Let_def)
qed

theorem run_macd_reference_witness:
  "run ''TCS.NS'' (Inr [(10, 100), (11, 120), (12, 90)]) 60 =
     Inr \<lparr>d_symbol = ''TCS.NS'', d_price = Num 12, d_rsi = NaN,
          d_macd = Num (27244 / 123201), d_macd_signal = Num (175532 / 3080025),
          d_macd_hist = Num (505568 / 3080025), d_volume = 90, d_timestamp = 60\<rparr>
   \<and> macd_ref [10, 11, 12] 2 = 27244 / 123201
   \<and> signal_ref [10, 11, 12] 2 = 175532 / 3080025"
proof -
  have h: "[(10::real, 100::int), (11, 120), (12, 90)] \<noteq> []"
    by simp
  have r: "run ''TCS.NS'' (Inr [(10, 100), (11, 120), (12, 90)]) 60 =
     Inr \<lparr>d_symbol = ''TCS.NS'', d_price = Num 12, d_rsi = NaN,
          d_macd = Num (27244 / 123201), d_macd_signal = Num (175532 / 3080025),
          d_macd_hist = Num (505568 / 3080025), d_volume = 90, d_timestamp = 60\<rparr>"
    by (simp add: run_def Let_def ewm_mean_def rolling_mean_def fsub_def upt_rec)
  show ?thesis
    using run_macd_reference [OF h, of "''TCS.NS''" 60] r
    by (simp add: numeral_2_eq_2)
qed

text \<open>On a flat series every average is the series itself.\<close>

lemma ewm_loop_flat: "ewm_loop a c (replicate n c) = replicate n c"
  by (induction n) (simp_all add: Let_def)

lemma ewm_mean_flat: "ewm_mean k (replicate n c) = replicate n c"
  by (cases n) (simp_all add: ewm_mean_def ewm_loop_flat)

lemma map_const_replicate: "\<forall>x\<in>set xs. f x = c \<Longrightarrow> map f xs = replicate (length xs) c"
  by (induction xs) simp_all

lemma map2_minus_flat: "map2 (-) (replicate n c) (replicate n c) = replicate n (0::real)"
  by (simp add: zip_replicate)

text \<open>
  C8, at a flat series of 27 samples. On 27 closes of 100 the MACD, the signal and the
  histogram of \<open>run\<close> are 0, as the claim says. The average gain and the average loss are
  both 0, \<open>run\<close> divides the one by the other without a test, and its RSI is NaN where
  the claim says 50 and a real number.
\<close>

theorem flat_series_rsi_nan:
  "run ''TCS.NS'' (Inr (replicate 27 (100, 5))) 60 =
     Inr \<lparr>d_symbol = ''TCS.NS'', d_price = Num 100, d_rsi = NaN, d_macd = Num 0,
          d_macd_signal = Num 0, d_macd_hist = Num 0, d_volume = 5, d_timestamp = 60\<rparr>"
  by code_simp

text \<open>
  For every flat series of at least 27 samples \<open>run\<close> reports MACD 0, signal 0 and
  histogram 0.
\<close>

theorem flat_series_macd_zero:
  assumes "27 \<le> length hist" and "\<forall>r\<in>set hist. fst r = c"
  shows "\<exists>d. run symb (Inr hist) now = Inr d
           \<and> d_macd d = Num 0 \<and> d_macd_signal d = Num 0 \<and> d_macd_hist d = Num 0"
proof -
  from assms(1) have ne: "hist \<noteq> []" by auto
  then have pos: "0 < length hist" by simp
  have c: "map fst hist = replicate (length hist) c"
    using assms(2) by (rule map_const_replicate)
  show ?thesis
    using ne pos by (simp add: run_def Let_def c ewm_mean_flat map2_minus_flat)
qed

theorem flat_series_macd_zero_witness:
  "map_sum id d_macd_hist (run ''TCS.NS'' (Inr (replicate 27 (100, 5))) 60) = Inr (Num 0)
   \<and> map_sum id d_macd (run ''TCS.NS'' (Inr (replicate 27 (100, 5))) 60) = Inr (Num 0)
   \<and> map_sum id d_macd_signal (run ''TCS.NS'' (Inr (replicate 27 (100, 5))) 60) = Inr (Num 0)"
proof -
  have h1: "27 \<le> length (replicate 27 (100::real, 5::int))"
    by simp
  have h2: "\<forall>r\<in>set (replicate 27 (100::real, 5::int)). fst r = 100"
    by simp
  show ?thesis
    using flat_series_macd_zero [OF h1 h2, of "''TCS.NS''" 60]
    by auto
qed

text \<open>The histogram identity is kept by every merge of a result of \<open>fetch_stock_data\<close>.\<close>

lemma fetch_stock_data_hist:
  "fetch_stock_data ta symb response now = Inr d \<Longrightarrow>
   d_macd_hist d = fsub (d_macd d) (d_macd_signal d)"
  by (auto simp: fetch_stock_data_def Let_def split: sum.splits if_splits)

lemma run_hist:
  assumes "run symb response now = Inr d"
  shows "d_macd_hist d = fsub (d_macd d) (d_macd_signal d)"
proof (cases response)
  case (Inl exn)
  with assms show ?thesis by (simp add: run_def)
next
  case (Inr hist)
  with assms have "hist \<noteq> []" by (auto simp: run_def)
  from run_macd_reference[OF this, of symb now] assms Inr show ?thesis
    by (auto simp: fsub_def)
qed

lemma merge_result_hist:
  assumes "\<forall>s e. st s = Some e \<longrightarrow> macd_hist e = fsub (macd e) (macd_signal e)"
    and "\<forall>d. data = Inr d \<longrightarrow> d_macd_hist d = fsub (d_macd d) (d_macd_signal d)"
  shows "\<forall>s e. merge_result now symb data st s = Some e
            \<longrightarrow> macd_hist e = fsub (macd e) (macd_signal e)"
  using assms
  by (auto simp: merge_result_def Let_def update_macd_history_def
      split: sum.splits option.splits if_splits)

lemma refresh_symbols_hist:
  "\<forall>s e. st s = Some e \<longrightarrow> macd_hist e = fsub (macd e) (macd_signal e) \<Longrightarrow>
   \<forall>s e. refresh_symbols ta steps st s = Some e
     \<longrightarrow> macd_hist e = fsub (macd e) (macd_signal e)"
proof (induction steps arbitrary: st)
  case Nil
  then show ?case by simp
next
  case (Cons step steps)
  obtain t_fetch t_init symb response where step: "step = (t_fetch, t_init, symb, response)"
    by (cases step) auto
  have "\<forall>s e. merge_result t_init symb (fetch_stock_data ta symb response t_fetch) st s = Some e
          \<longrightarrow> macd_hist e = fsub (macd e) (macd_signal e)"
    using Cons.prems by (intro merge_result_hist) (auto dest: fetch_stock_data_hist)
  from Cons.IH[OF this] step show ?case by simp
qed

lemma StockDataFetcher_run_hist:
  "StockDataFetcher_run ta symb response now = Inr d \<Longrightarrow>
   d_macd_hist d = py_round (fsub64 (d_macd d) (d_macd_signal d)) 4"
  by (auto simp: StockDataFetcher_run_def Let_def split: sum.splits if_splits)

text \<open>
  C9. The claim: in every computed result the histogram equals MACD minus signal
  exactly. The worker of simple_stock_analyzer.py rounds the MACD and the signal to four
  decimals and then rounds their difference again. With the MACD 0.3 and the signal 0.1
  the difference of the two floats is 7205759403792793 / 2^55 (0.19999999999999998) and
  the histogram is the float 0.2, which is 7205759403792794 / 2^55.
\<close>

theorem rounded_hist_counterexample:
  "StockDataFetcher_run sample_ta_tenths ''TCS.NS'' (Inr [(Num 100, 5)]) 60 =
     Inr \<lparr>d_symbol = ''TCS.NS'', d_price = Num 100, d_rsi = Num 50,
          d_macd = Num (5404319552844595 / 2 ^ 54),
          d_macd_signal = Num (3602879701896397 / 2 ^ 55),
          d_macd_hist = Num (7205759403792794 / 2 ^ 55),
          d_volume = 5, d_timestamp = 60\<rparr>
   \<and> fsub64 (Num (5404319552844595 / 2 ^ 54)) (Num (3602879701896397 / 2 ^ 55)) =
       Num (7205759403792793 / 2 ^ 55)
   \<and> fsub (Num (5404319552844595 / 2 ^ 54)) (Num (3602879701896397 / 2 ^ 55)) =
       Num (7205759403792793 / 2 ^ 55)
   \<and> Num (7205759403792794 / 2 ^ 55) \<noteq> Num (7205759403792793 / 2 ^ 55)"
  by (simp add: StockDataFetcher_run_def sample_ta_tenths_def Let_def fsub64_def fsub_def
      to_double_def to_binade.simps round_half_even_def)

text \<open>
  C9, as amended. In every result of \<open>fetch_stock_data\<close> and of \<open>StockFetcher.run\<close> the
  histogram is the float difference of the MACD and its signal, and so it is in every
  entry of the store after any run of the refresh loops from the empty store; the
  identity is one of values, and where the difference is NaN the histogram is NaN. In
  every result of the worker of simple_stock_analyzer.py the histogram is the float
  difference of the reported MACD and signal rounded to four decimals.
\<close>

theorem macd_hist_identity:
  "(fetch_stock_data ta symb response now = Inr d
      \<longrightarrow> d_macd_hist d = fsub (d_macd d) (d_macd_signal d))
   \<and> (run symb response' now = Inr d'
      \<longrightarrow> d_macd_hist d' = fsub (d_macd d') (d_macd_signal d'))
   \<and> (refresh_symbols ta steps Map.empty symb = Some e
      \<longrightarrow> macd_hist e = fsub (macd e) (macd_signal e))
   \<and> (StockDataFetcher_run ta symb response now = Inr d''
      \<longrightarrow> d_macd_hist d'' = py_round (fsub64 (d_macd d'') (d_macd_signal d'')) 4)"
  using fetch_stock_data_hist[of ta symb response now d] run_hist[of symb response' now d']
    refresh_symbols_hist[of Map.empty ta steps]
    StockDataFetcher_run_hist[of ta symb response now d'']
  by auto

theorem macd_hist_identity_witness:
  "map_sum id d_macd_hist
     (fetch_stock_data sample_ta_quarters ''TCS.NS'' (Inr [(Num 10, 100), (Num 12, 120)]) 60)
     = Inr (Num (1 / 4))
   \<and> map_sum id d_macd_hist (run ''TCS.NS'' (Inr [(10, 100), (11, 120), (12, 90)]) 60)
     = Inr (Num (505568 / 3080025))
   \<and> map_option macd_hist
       (refresh_symbols sample_ta_quarters sample_steps Map.empty ''TCS.NS'')
     = Some (Num (1 / 4))
   \<and> map_sum id d_macd_hist
       (StockDataFetcher_run sample_ta_quarters ''TCS.NS''
          (Inr [(Num 10, 100), (Num 12, 120)]) 60)
     = Inr (Num (1 / 4))"
proof -
  have h1: "fetch_stock_data sample_ta_quarters ''TCS.NS''
              (Inr [(Num 10, 100), (Num 12, 120)]) 60 =
     Inr \<lparr>d_symbol = ''TCS.NS'', d_price = Num 12, d_rsi = Num 50, d_macd = Num (1 / 2),
          d_macd_signal = Num (1 / 4), d_macd_hist = Num (1 / 4), d_volume = 120,
          d_timestamp = 60\<rparr>"
    by (simp add: fetch_stock_data_def sample_ta_quarters_def fsub_def Let_def)
  have h2: "run ''TCS.NS'' (Inr [(10, 100), (11, 120), (12, 90)]) 60 =
     Inr \<lparr>d_symbol = ''TCS.NS'', d_price = Num 12, d_rsi = NaN,
          d_macd = Num (27244 / 123201), d_macd_signal = Num (175532 / 3080025),
          d_macd_hist = Num (505568 / 3080025), d_volume = 90, d_timestamp = 60\<rparr>"
    by code_simp
  have h3: "refresh_symbols sample_ta_quarters sample_steps Map.empty ''TCS.NS'' =
     Some \<lparr>symbol = ''TCS.NS'', price = Num 15, rsi = Num 50, macd = Num (1 / 2),
           macd_signal = Num (1 / 4), macd_hist = Num (1 / 4), volume = 90, timestamp = 120,
           prev_macd = Num (1 / 2), prev_signal = Num (1 / 4), error = None\<rparr>"
    by (simp add: sample_steps_def fetch_stock_data_def sample_ta_quarters_def fsub_def
        Let_def merge_result_def StockData_init_def update_macd_history_def)
  have h4: "StockDataFetcher_run sample_ta_quarters ''TCS.NS''
              (Inr [(Num 10, 100), (Num 12, 120)]) 60 =
     Inr \<lparr>d_symbol = ''TCS.NS'', d_price = Num 12, d_rsi = Num 50, d_macd = Num (1 / 2),
          d_macd_signal = Num (1 / 4), d_macd_hist = Num (1 / 4), d_volume = 120,
          d_timestamp = 60\<rparr>"
    by (simp add: StockDataFetcher_run_def sample_ta_quarters_def Let_def fsub64_def fsub_def
        to_double_def to_binade.simps round_half_even_def)
  show ?thesis
    using macd_hist_identity
      [where ta = sample_ta_quarters and symb = "''TCS.NS''"
         and response = "Inr [(Num 10, 100), (Num 12, 120)]" and now = 60
         and response' = "Inr [(10, 100), (11, 120), (12, 90)]"
         and steps = sample_steps]
      h1 h2 h3 h4
    by simp
qed

section \<open>Symbols\<close>

text \<open>
  C10. \<open>ensure_nse_symbol\<close> returns a string that ends with ".NS" and is idempotent. The
  symbols of the tracked set are fixed points of it, and \<open>get_stock\<close> applies it to the
  symbol of the request, so a request for a symbol and a request for its suffixed form
  read the same key: for a symbol X without the suffix, X and X.NS.
\<close>

theorem ensure_nse_symbol_key:
  "suffix ''.NS'' (ensure_nse_symbol s)
   \<and> ensure_nse_symbol (ensure_nse_symbol s) = ensure_nse_symbol s
   \<and> (\<forall>k\<in>set (fetch_stocks_from_db db). ensure_nse_symbol k = k)
   \<and> get_stock st (ensure_nse_symbol s) = get_stock st s
   \<and> (\<not> suffix ''.NS'' x \<longrightarrow>
        ensure_nse_symbol x = x @ ''.NS'' \<and> ensure_nse_symbol (x @ ''.NS'') = x @ ''.NS''
        \<and> get_stock st x = get_stock st (x @ ''.NS''))"
proof -
  have suf: "suffix ''.NS'' (z @ ''.NS'')" for z :: string
    by (simp add: suffix_def)
  have idem: "ensure_nse_symbol (ensure_nse_symbol z) = ensure_nse_symbol z" for z
    by (simp add: ensure_nse_symbol_def suf)
  have "\<forall>k\<in>set (fetch_stocks_from_db db). ensure_nse_symbol k = k"
    by (auto simp: fetch_stocks_from_db_def Let_def idem split: option.splits)
  moreover have "suffix ''.NS'' (ensure_nse_symbol s)"
    by (simp add: ensure_nse_symbol_def suf)
  ultimately show ?thesis
    by (simp add: idem get_stock_def) (simp add: ensure_nse_symbol_def suf)
qed

theorem ensure_nse_symbol_key_witness:
  "ensure_nse_symbol ''TCS'' = ''TCS.NS'' \<and> ensure_nse_symbol ''TCS.NS'' = ''TCS.NS''
   \<and> get_stock [''TCS.NS'' \<mapsto> sample_entry] ''TCS'' = Inr sample_entry
   \<and> get_stock [''TCS.NS'' \<mapsto> sample_entry] ''TCS'' =
       get_stock [''TCS.NS'' \<mapsto> sample_entry] ''TCS.NS''
   \<and> ensure_nse_symbol ''HDFCBANK.NS'' = ''HDFCBANK.NS''"
proof -
  have h: "\<not> suffix ''.NS'' ''TCS''"
    by (simp add: suffix_def)
  have k: "''HDFCBANK.NS'' \<in> set (fetch_stocks_from_db None)"
    by (simp add: fetch_stocks_from_db_def DEFAULT_STOCKS_def ensure_nse_symbol_def suffix_def)
  show ?thesis
    using ensure_nse_symbol_key [of "''TCS''" None "[''TCS.NS'' \<mapsto> sample_entry]" "''TCS''"] h k
    by (auto simp: get_stock_def)
qed

end
